theory Spec2Isabelle
  imports Main "HOL-Library.Word"
begin

unbundle bit_operations_syntax

section \<open>PowerPlanTray: data model\<close>

text \<open>
  A shallow embedding of \<^verbatim>\<open>PowerPlanTray.cpp\<close>. The process-wide globals of the
  program become the fields of the record \<open>state\<close>; the part of Windows the program
  talks to (power schemes, last-input clock, the registry key, the tray tooltip) is the
  record \<open>host\<close>, carried inside the state, and every outward call that a property
  counts is appended to the trace \<open>calls\<close>.

  A \<^verbatim>\<open>GUID\<close> is a 16-byte plain struct: it is modelled as a 128-bit word,
  \<^verbatim>\<open>GUID{}\<close> is \<open>0\<close> and \<^verbatim>\<open>IsEqualGUID\<close> is equality.
  \<^verbatim>\<open>DWORD\<close> is a 32-bit word; the \<^verbatim>\<open>int\<close> global
  \<^verbatim>\<open>g_afkTimeoutMinutes\<close> is a 32-bit word read with \<open>sint\<close>, so that the casts
  \<^verbatim>\<open>(int)dw\<close> and \<^verbatim>\<open>(DWORD)g_afkTimeoutMinutes\<close> keep the bits.
\<close>

type_synonym GUID = "128 word"
type_synonym DWORD = "32 word"
type_synonym wstring = "16 word list"

record PlanItem =
  guid :: GUID
  name :: wstring

text \<open>Registry values, by type: the program reads and writes a DWORD and a binary blob.\<close>

datatype reg_value = REG_DWORD DWORD | REG_BINARY "8 word list" | REG_SZ wstring

text \<open>
  The host. \<open>schemes\<close> lists the installed power schemes in the order of
  \<^verbatim>\<open>PowerEnumerate\<close>, each with what \<^verbatim>\<open>PowerReadFriendlyName\<close> gives
  (\<open>None\<close> when that call fails). \<open>active\<close> is the active scheme;
  \<open>get_active_fails\<close> and \<open>set_active_fails\<close> make the two scheme calls fail whatever
  their argument. \<open>last_input\<close> is \<^verbatim>\<open>LASTINPUTINFO.dwTime\<close> (\<open>None\<close> when
  \<^verbatim>\<open>GetLastInputInfo\<close> fails) and \<open>tick_count\<close> is \<^verbatim>\<open>GetTickCount64()\<close>.
  \<open>reg_key\<close> is the key \<^verbatim>\<open>HKCU\Software\PowerPlanTray\<close> (\<open>None\<close> when it does not
  exist), \<open>reg_denied\<close> makes opening or creating it fail. \<open>tooltip\<close> is the text
  shown by the tray icon and \<open>tooltip_default\<close> the resource string
  \<^verbatim>\<open>IDS_TRAY_TOOLTIP_DEFAULT\<close>.
\<close>

record host =
  schemes :: "(GUID \<times> wstring option) list"
  active :: GUID
  get_active_fails :: bool
  set_active_fails :: bool
  last_input :: "DWORD option"
  tick_count :: "64 word"
  reg_key :: "(string \<rightharpoonup> reg_value) option"
  reg_denied :: bool
  tooltip :: wstring
  tooltip_default :: wstring

text \<open>The outward calls recorded in the trace.\<close>

datatype call =
    CallSetActivePlan GUID
  | CallUpdateTrayTooltip
  | CallAfkSaveSettings
  | CallShowTrayMenu
  | CallToggleStartup
  | CallTrayIcon
  | CallDestroyWindow

record state =
  g_lastActiveGuid :: GUID
  g_afkTimeoutMinutes :: "32 word"
  g_afkTargetGuid :: GUID
  g_afkPrevGuid :: GUID
  g_afkApplied :: bool
  sys :: host
  calls :: "call list"

text \<open>The globals as the program initialises them, on a given host.\<close>

definition initial :: "host \<Rightarrow> state" where
  "initial h = \<lparr> g_lastActiveGuid = 0, g_afkTimeoutMinutes = 0, g_afkTargetGuid = 0,
     g_afkPrevGuid = 0, g_afkApplied = False, sys = h, calls = [] \<rparr>"

section \<open>Plan registry\<close>

text \<open>
  \<^verbatim>\<open>EnumeratePlans\<close>: the loop over \<^verbatim>\<open>PowerEnumerate\<close> skips a scheme whose
  friendly name cannot be read and trims one trailing NUL of the name.
\<close>

fun EnumeratePlans_loop :: "(GUID \<times> wstring option) list \<Rightarrow> PlanItem list" where
  "EnumeratePlans_loop [] = []"
| "EnumeratePlans_loop ((g, None) # rest) = EnumeratePlans_loop rest"
| "EnumeratePlans_loop ((g, Some n) # rest) =
     \<lparr> guid = g, name = (if n \<noteq> [] \<and> last n = 0 then butlast n else n) \<rparr>
       # EnumeratePlans_loop rest"

definition EnumeratePlans :: "host \<Rightarrow> PlanItem list" where
  "EnumeratePlans h = EnumeratePlans_loop (schemes h)"

text \<open>
  \<^verbatim>\<open>bool GetActivePlanGuid(GUID& outGuid)\<close>: the out-parameter is written only on
  success; the model takes its old value and returns the flag with its new value.
\<close>

definition GetActivePlanGuid :: "GUID \<Rightarrow> host \<Rightarrow> bool \<times> GUID" where
  "GetActivePlanGuid outGuid h =
     (if get_active_fails h then (False, outGuid) else (True, active h))"

text \<open>
  \<^verbatim>\<open>PowerSetActiveScheme\<close> succeeds for an installed scheme unless the host refuses;
  on success the scheme becomes the active one.
\<close>

definition PowerSetActiveScheme :: "GUID \<Rightarrow> host \<Rightarrow> bool \<times> host" where
  "PowerSetActiveScheme g h =
     (if \<not> set_active_fails h \<and> g \<in> fst ` set (schemes h)
      then (True, h\<lparr>active := g\<rparr>) else (False, h))"

definition SetActivePlan :: "GUID \<Rightarrow> state \<Rightarrow> bool \<times> state" where
  "SetActivePlan g s =
     (let (ok, h) = PowerSetActiveScheme g (sys s)
      in (ok, s\<lparr>sys := h, calls := calls s @ [CallSetActivePlan g]\<rparr>))"

text \<open>
  \<^verbatim>\<open>StringCchCopy(dest, cchDest, src)\<close> copies the characters of \<open>src\<close> up to its
  first NUL, and at most \<open>cchDest - 1\<close> of them, the last place being kept for the
  terminator.
\<close>

definition StringCchCopy :: "nat \<Rightarrow> wstring \<Rightarrow> wstring" where
  "StringCchCopy cchDest src = take (cchDest - 1) (takeWhile (\<lambda>c. c \<noteq> 0) src)"

text \<open>
  \<^verbatim>\<open>UpdateTrayTooltip\<close>: the name of the active plan, found in a fresh enumeration,
  or the default text, copied into \<^verbatim>\<open>szTip\<close>, an array of 128 characters.
\<close>

fun find_plan_name :: "GUID \<Rightarrow> PlanItem list \<Rightarrow> wstring \<Rightarrow> wstring" where
  "find_plan_name a [] tip = tip"
| "find_plan_name a (it # items) tip =
     (if guid it = a then name it else find_plan_name a items tip)"

definition UpdateTrayTooltip :: "state \<Rightarrow> state" where
  "UpdateTrayTooltip s =
     (let h = sys s;
          (ok, act) = GetActivePlanGuid 0 h;
          tip = (if ok then find_plan_name act (EnumeratePlans h) (tooltip_default h)
                 else tooltip_default h)
      in s\<lparr>sys := h\<lparr>tooltip := StringCchCopy 128 tip\<rparr>,
           calls := calls s @ [CallUpdateTrayTooltip]\<rparr>)"

section \<open>Idle monitor\<close>

definition GetIdleSeconds :: "host \<Rightarrow> DWORD" where
  "GetIdleSeconds h =
     (case last_input h of
        None \<Rightarrow> 0
      | Some dwTime \<Rightarrow>
          (let now = tick_count h; then' = (ucast dwTime :: 64 word)
           in if now < then' then 0 else ucast ((now - then') div 1000)))"

section \<open>The AFK engine\<close>

text \<open>
  \<^verbatim>\<open>AfkCheckTick\<close>, called once a second. \<^verbatim>\<open>GUID cur{}\<close> stays all-zero
  when the active plan cannot be read; the result of \<^verbatim>\<open>SetActivePlan\<close> is dropped.
\<close>

definition AfkCheckTick :: "state \<Rightarrow> state" where
  "AfkCheckTick s =
     (if sint (g_afkTimeoutMinutes s) \<le> 0 then s
      else
        let idle = GetIdleSeconds (sys s);
            threshold = g_afkTimeoutMinutes s * 60
        in if idle \<ge> threshold then
             (if \<not> g_afkApplied s then
                let (ok, cur) = GetActivePlanGuid 0 (sys s);
                    s1 = s\<lparr>g_afkPrevGuid := (if ok then cur else 0)\<rparr>;
                    s2 = (if cur \<noteq> g_afkTargetGuid s1 \<and> g_afkTargetGuid s1 \<noteq> 0 then
                            UpdateTrayTooltip
                              ((snd (SetActivePlan (g_afkTargetGuid s1) s1))
                                 \<lparr>g_lastActiveGuid := g_afkTargetGuid s1\<rparr>)
                          else s1)
                in s2\<lparr>g_afkApplied := True\<rparr>
              else s)
           else
             (if g_afkApplied s then
                let (ok, cur) = GetActivePlanGuid 0 (sys s);
                    s1 = (if cur \<noteq> g_afkPrevGuid s \<and> g_afkPrevGuid s \<noteq> 0 then
                            UpdateTrayTooltip
                              ((snd (SetActivePlan (g_afkPrevGuid s) s))
                                 \<lparr>g_lastActiveGuid := g_afkPrevGuid s\<rparr>)
                          else s)
                in s1\<lparr>g_afkApplied := False\<rparr>
              else s))"

text \<open>The activation requests in a trace.\<close>

fun activations :: "call list \<Rightarrow> GUID list" where
  "activations [] = []"
| "activations (CallSetActivePlan g # cs) = g # activations cs"
| "activations (c # cs) = activations cs"

section \<open>Settings store\<close>

text \<open>
  The registry stores the 16 bytes of the \<^verbatim>\<open>GUID\<close> object as they lie in memory.
  The 128-bit word of the model is read least significant byte first.
\<close>

fun guid_bytes :: "nat \<Rightarrow> GUID \<Rightarrow> 8 word list" where
  "guid_bytes 0 g = []"
| "guid_bytes (Suc n) g = ucast g # guid_bytes n (drop_bit 8 g)"

fun bytes_guid :: "8 word list \<Rightarrow> GUID" where
  "bytes_guid [] = 0"
| "bytes_guid (b # bs) = ucast b OR push_bit 8 (bytes_guid bs)"

text \<open>
  \<^verbatim>\<open>RegOpenKeyExW\<close> finds the key when it exists; \<^verbatim>\<open>RegCreateKeyExW\<close> opens it or
  creates it empty. \<^verbatim>\<open>RegGetValueW\<close> with a type restriction succeeds only on a value
  of that type, and for a binary value only when the data fits the buffer; it reports
  the size of the data.
\<close>

definition RegOpenKeyExW :: "host \<Rightarrow> (string \<rightharpoonup> reg_value) option" where
  "RegOpenKeyExW h = (if reg_denied h then None else reg_key h)"

definition RegCreateKeyExW :: "host \<Rightarrow> (string \<rightharpoonup> reg_value) option" where
  "RegCreateKeyExW h =
     (if reg_denied h then None
      else case reg_key h of None \<Rightarrow> Some Map.empty | Some vals \<Rightarrow> Some vals)"

definition RegGetValueW_DWORD :: "(string \<rightharpoonup> reg_value) \<Rightarrow> string \<Rightarrow> DWORD option" where
  "RegGetValueW_DWORD vals k = (case vals k of Some (REG_DWORD dw) \<Rightarrow> Some dw | _ \<Rightarrow> None)"

definition RegGetValueW_BINARY ::
  "(string \<rightharpoonup> reg_value) \<Rightarrow> string \<Rightarrow> nat \<Rightarrow> 8 word list option" where
  "RegGetValueW_BINARY vals k cap =
     (case vals k of
        Some (REG_BINARY bs) \<Rightarrow> (if length bs \<le> cap then Some bs else None)
      | _ \<Rightarrow> None)"

definition AfkLoadSettings :: "state \<Rightarrow> state" where
  "AfkLoadSettings s =
     (case RegOpenKeyExW (sys s) of
        None \<Rightarrow> s
      | Some vals \<Rightarrow>
          (let s1 = (case RegGetValueW_DWORD vals ''AfkTimeoutMinutes'' of
                       Some dw \<Rightarrow> s\<lparr>g_afkTimeoutMinutes := dw\<rparr>
                     | None \<Rightarrow> s)
           in case RegGetValueW_BINARY vals ''AfkTargetPlan'' 16 of
                Some bs \<Rightarrow>
                  (if length bs = 16 then s1\<lparr>g_afkTargetGuid := bytes_guid bs\<rparr> else s1)
              | None \<Rightarrow> s1))"

definition AfkSaveSettings :: "state \<Rightarrow> state" where
  "AfkSaveSettings s =
     (let s0 = s\<lparr>calls := calls s @ [CallAfkSaveSettings]\<rparr>
      in case RegCreateKeyExW (sys s0) of
           None \<Rightarrow> s0
         | Some vals \<Rightarrow>
             s0\<lparr>sys := (sys s0)\<lparr>reg_key :=
                  Some (vals(''AfkTimeoutMinutes'' \<mapsto> REG_DWORD (g_afkTimeoutMinutes s0),
                             ''AfkTargetPlan'' \<mapsto>
                               REG_BINARY (guid_bytes 16 (g_afkTargetGuid s0))))\<rparr>\<rparr>)"

section \<open>Startup\<close>

text \<open>
  \<^verbatim>\<open>CreateHiddenWindow\<close>; the argument tells whether \<^verbatim>\<open>CreateWindowW\<close> gave a
  window. The two timers it starts are the messages \<open>WM_TIMER\<close> below.
\<close>

definition AddOrUpdateTrayIcon :: "state \<Rightarrow> state" where
  "AddOrUpdateTrayIcon s =
     s\<lparr>sys := (sys s)\<lparr>tooltip := StringCchCopy 128 (tooltip_default (sys s))\<rparr>,
       calls := calls s @ [CallTrayIcon]\<rparr>"

definition CreateHiddenWindow :: "bool \<Rightarrow> state \<Rightarrow> bool \<times> state" where
  "CreateHiddenWindow hWnd_ok s =
     (if \<not> hWnd_ok then (False, s)
      else
        let s1 = UpdateTrayTooltip (AddOrUpdateTrayIcon s);
            s2 = s1\<lparr>g_lastActiveGuid := snd (GetActivePlanGuid (g_lastActiveGuid s1) (sys s1))\<rparr>;
            s3 = AfkLoadSettings s2;
            s4 = (if g_afkTargetGuid s3 = 0 then
                    (let (ok, cur) = GetActivePlanGuid 0 (sys s3)
                     in if ok then s3\<lparr>g_afkTargetGuid := cur\<rparr> else s3)
                  else s3)
        in (True, s4))"

section \<open>The window procedure\<close>

definition ID_BASE_PLAN :: nat where "ID_BASE_PLAN = 10000"
definition IDM_STARTUP :: nat where "IDM_STARTUP = 40001"
definition IDM_REFRESH :: nat where "IDM_REFRESH = 40002"
definition IDM_AFK_OFF :: nat where "IDM_AFK_OFF = 40100"
definition IDM_AFK_INTERVAL_BASE :: nat where "IDM_AFK_INTERVAL_BASE = 40200"
definition IDM_AFK_TARGET_BASE :: nat where "IDM_AFK_TARGET_BASE = 40300"
definition TIMER_EVENT_POLL_ACTIVE :: nat where "TIMER_EVENT_POLL_ACTIVE = 1"
definition TIMER_EVENT_AFK_CHECK :: nat where "TIMER_EVENT_AFK_CHECK = 2"
definition PBT_POWERSETTINGCHANGE :: nat where "PBT_POWERSETTINGCHANGE = 32787"
definition WM_RBUTTONUP :: nat where "WM_RBUTTONUP = 517"
definition WM_CONTEXTMENU :: nat where "WM_CONTEXTMENU = 123"

definition intervals :: "32 word list" where
  "intervals = [1, 5, 10, 15, 30, 45, 60]"

text \<open>
  The messages the procedure tells apart, with \<^verbatim>\<open>wParam\<close> (or \<^verbatim>\<open>lParam\<close> for the
  tray icon) where it is looked at. \<open>TaskbarCreated\<close> is the registered message
  \<^verbatim>\<open>g_uTaskbarCreated\<close>; \<open>WM_OTHER\<close> is any message left to
  \<^verbatim>\<open>DefWindowProc\<close>.
\<close>

datatype message =
    TaskbarCreated
  | WM_CREATE
  | WM_COMMAND nat
  | WM_TRAYICON nat
  | WM_POWERBROADCAST nat
  | WM_DPICHANGED
  | WM_TIMER nat
  | WM_DESTROY
  | WM_OTHER

text \<open>
  \<^verbatim>\<open>WndProc\<close>. The command identifier \<^verbatim>\<open>IDM_EXIT\<close> is defined in a resource
  header that is not among the sources, so it is the first argument.
\<close>

definition WndProc_COMMAND :: "nat \<Rightarrow> nat \<Rightarrow> state \<Rightarrow> state" where
  "WndProc_COMMAND IDM_EXIT wParam s =
     (let cmd = wParam mod 65536 in
      if cmd = IDM_EXIT then s\<lparr>calls := calls s @ [CallDestroyWindow]\<rparr>
      else if cmd = IDM_REFRESH then UpdateTrayTooltip s
      else if cmd = IDM_STARTUP then s\<lparr>calls := calls s @ [CallToggleStartup]\<rparr>
      else if cmd = IDM_AFK_OFF then
        (let s0 = s\<lparr>g_afkTimeoutMinutes := 0\<rparr>;
             s3 = (if g_afkApplied s0 then
                     (let (ok, cur) = GetActivePlanGuid 0 (sys s0);
                          s1 = (if cur \<noteq> g_afkPrevGuid s0 \<and> g_afkPrevGuid s0 \<noteq> 0 then
                                  (snd (SetActivePlan (g_afkPrevGuid s0) s0))
                                    \<lparr>g_lastActiveGuid := g_afkPrevGuid s0\<rparr>
                                else s0)
                      in UpdateTrayTooltip (s1\<lparr>g_afkApplied := False\<rparr>))
                   else s0)
         in AfkSaveSettings s3)
      else if cmd \<ge> IDM_AFK_INTERVAL_BASE \<and> cmd < IDM_AFK_INTERVAL_BASE + 100 then
        (let idx = cmd - IDM_AFK_INTERVAL_BASE in
         if idx < 7 then AfkSaveSettings (s\<lparr>g_afkTimeoutMinutes := intervals ! idx\<rparr>) else s)
      else if cmd \<ge> IDM_AFK_TARGET_BASE \<and> cmd < IDM_AFK_TARGET_BASE + 10000 then
        (let index = cmd - IDM_AFK_TARGET_BASE; plans = EnumeratePlans (sys s) in
         if index < length plans then AfkSaveSettings (s\<lparr>g_afkTargetGuid := guid (plans ! index)\<rparr>)
         else s)
      else if cmd \<ge> ID_BASE_PLAN \<and> cmd < ID_BASE_PLAN + 10000 then
        (let index = cmd - ID_BASE_PLAN; plans = EnumeratePlans (sys s) in
         if index < length plans then
           UpdateTrayTooltip (snd (SetActivePlan (guid (plans ! index)) s))
         else s)
      else s)"

definition WndProc_TIMER :: "nat \<Rightarrow> state \<Rightarrow> state" where
  "WndProc_TIMER wParam s =
     (if wParam = TIMER_EVENT_POLL_ACTIVE then
        (let (ok, now) = GetActivePlanGuid 0 (sys s) in
         if ok \<and> now \<noteq> g_lastActiveGuid s
         then UpdateTrayTooltip (s\<lparr>g_lastActiveGuid := now\<rparr>)
         else s)
      else if wParam = TIMER_EVENT_AFK_CHECK then AfkCheckTick s
      else s)"

fun WndProc :: "nat \<Rightarrow> message \<Rightarrow> state \<Rightarrow> state" where
  "WndProc IDM_EXIT TaskbarCreated s = UpdateTrayTooltip (AddOrUpdateTrayIcon s)"
| "WndProc IDM_EXIT WM_CREATE s = s"
| "WndProc IDM_EXIT (WM_COMMAND wParam) s = WndProc_COMMAND IDM_EXIT wParam s"
| "WndProc IDM_EXIT (WM_TRAYICON lParam) s =
     (if lParam mod 65536 = WM_RBUTTONUP \<or> lParam mod 65536 = WM_CONTEXTMENU
      then s\<lparr>calls := calls s @ [CallShowTrayMenu]\<rparr> else s)"
| "WndProc IDM_EXIT (WM_POWERBROADCAST wParam) s =
     (if wParam = PBT_POWERSETTINGCHANGE then UpdateTrayTooltip s else s)"
| "WndProc IDM_EXIT WM_DPICHANGED s =
     UpdateTrayTooltip (AddOrUpdateTrayIcon (s\<lparr>calls := calls s @ [CallTrayIcon]\<rparr>))"
| "WndProc IDM_EXIT (WM_TIMER wParam) s = WndProc_TIMER wParam s"
| "WndProc IDM_EXIT WM_DESTROY s = s\<lparr>calls := calls s @ [CallTrayIcon]\<rparr>"
| "WndProc IDM_EXIT WM_OTHER s = s"

section \<open>Runs\<close>

text \<open>
  Between two messages the host may change under the program: another application or
  the user activates a plan, time passes, input arrives, a call starts to fail. An
  event is a message delivered to the window or the host as it has become.
\<close>

datatype event = Message message | HostChange host

fun step :: "nat \<Rightarrow> event \<Rightarrow> state \<Rightarrow> state" where
  "step IDM_EXIT (Message m) s = WndProc IDM_EXIT m s"
| "step IDM_EXIT (HostChange h) s = s\<lparr>sys := h\<rparr>"

fun run :: "nat \<Rightarrow> event list \<Rightarrow> state \<Rightarrow> state" where
  "run IDM_EXIT [] s = s"
| "run IDM_EXIT (e # es) s = run IDM_EXIT es (step IDM_EXIT e s)"

text \<open>A run of the AFK timer alone, the host changing freely in between.\<close>

fun tick_or_host :: "event \<Rightarrow> bool" where
  "tick_or_host (Message m) = (m = WM_TIMER TIMER_EVENT_AFK_CHECK)"
| "tick_or_host (HostChange h) = True"

text \<open>The same, where the user stays idle for at least \<open>th\<close> seconds.\<close>

fun still_idle :: "DWORD \<Rightarrow> event \<Rightarrow> bool" where
  "still_idle th (Message m) = (m = WM_TIMER TIMER_EVENT_AFK_CHECK)"
| "still_idle th (HostChange h) = (th \<le> GetIdleSeconds h)"

text \<open>The same, where the active plan stays readable and stays \<open>a\<close>.\<close>

fun same_plan :: "GUID \<Rightarrow> event \<Rightarrow> bool" where
  "same_plan a (Message m) = (m = WM_TIMER TIMER_EVENT_AFK_CHECK)"
| "same_plan a (HostChange h) = (GetActivePlanGuid 0 h = (True, a))"

text \<open>The five globals of the engine, without the host and the trace.\<close>

definition globals_of :: "state \<Rightarrow> GUID \<times> 32 word \<times> GUID \<times> GUID \<times> bool" where
  "globals_of s = (g_lastActiveGuid s, g_afkTimeoutMinutes s, g_afkTargetGuid s,
     g_afkPrevGuid s, g_afkApplied s)"

section \<open>Example hosts and states\<close>

text \<open>
  Two plans on a desktop whose user touched the machine one second after boot;
  \<open>tick_count\<close> 302000 makes 301 idle seconds.
\<close>

definition PlanA :: GUID where "PlanA = 1"
definition PlanB :: GUID where "PlanB = 2"

definition desk :: host where
  "desk = \<lparr> schemes = [(PlanA, Some [65, 0]), (PlanB, Some [66, 0])], active = PlanA,
     get_active_fails = False, set_active_fails = False,
     last_input = Some 1000, tick_count = 302000,
     reg_key = None, reg_denied = False, tooltip = [], tooltip_default = [80] \<rparr>"

text \<open>Scenario A of the specification: timeout 5, idle 301 s, current A, target B.\<close>

definition scenario_A :: state where
  "scenario_A = (initial desk)\<lparr>g_afkTimeoutMinutes := 5, g_afkTargetGuid := PlanB\<rparr>"

text \<open>Scenario A on a host that refuses every activation.\<close>

definition scenario_A_refused :: state where
  "scenario_A_refused = scenario_A\<lparr>sys := desk\<lparr>set_active_fails := True\<rparr>\<rparr>"

text \<open>Scenario B: forced from A to B, the user is back (idle 100 s).\<close>

definition scenario_B :: state where
  "scenario_B = (initial (desk\<lparr>active := PlanB, last_input := Some 302000,
        tick_count := 402000\<rparr>))
     \<lparr>g_lastActiveGuid := PlanB, g_afkTimeoutMinutes := 5, g_afkTargetGuid := PlanB,
      g_afkPrevGuid := PlanA, g_afkApplied := True\<rparr>"

text \<open>Scenario C: timeout 10, no target, idle 700 s.\<close>

definition scenario_C :: state where
  "scenario_C = (initial (desk\<lparr>tick_count := 701000\<rparr>))\<lparr>g_afkTimeoutMinutes := 10\<rparr>"

text \<open>
  Scenario C goes on: while the user is away another program activates plan B; then
  the user comes back. The next event is the tick that finds the user back.
\<close>

definition scenario_C_returned :: "event list" where
  "scenario_C_returned =
     [Message (WM_TIMER TIMER_EVENT_AFK_CHECK),
      HostChange (desk\<lparr>active := PlanB, tick_count := 801000\<rparr>),
      Message (WM_TIMER TIMER_EVENT_AFK_CHECK),
      HostChange (desk\<lparr>active := PlanB, last_input := Some 802000, tick_count := 802000\<rparr>)]"

text \<open>The same run with that tick.\<close>

definition scenario_C_switched :: "event list" where
  "scenario_C_switched =
     [Message (WM_TIMER TIMER_EVENT_AFK_CHECK),
      HostChange (desk\<lparr>active := PlanB, tick_count := 801000\<rparr>),
      Message (WM_TIMER TIMER_EVENT_AFK_CHECK),
      HostChange (desk\<lparr>active := PlanB, last_input := Some 802000, tick_count := 802000\<rparr>),
      Message (WM_TIMER TIMER_EVENT_AFK_CHECK)]"

text \<open>Scenario A goes on: two more ticks while the user is still away.\<close>

definition scenario_A_away :: "event list" where
  "scenario_A_away =
     [Message (WM_TIMER TIMER_EVENT_AFK_CHECK),
      HostChange (desk\<lparr>active := PlanB, tick_count := 303000\<rparr>),
      Message (WM_TIMER TIMER_EVENT_AFK_CHECK)]"

text \<open>Scenario D: forced with previous plan A, current plan B.\<close>

definition scenario_D :: state where
  "scenario_D = (initial (desk\<lparr>active := PlanB\<rparr>))
     \<lparr>g_lastActiveGuid := PlanB, g_afkTimeoutMinutes := 5, g_afkTargetGuid := PlanB,
      g_afkPrevGuid := PlanA, g_afkApplied := True\<rparr>"

text \<open>The tracker believes plan A is active while plan B is.\<close>

definition stale_tracker :: state where
  "stale_tracker = (initial (desk\<lparr>active := PlanB\<rparr>))\<lparr>g_lastActiveGuid := PlanA\<rparr>"

text \<open>A host whose registry key holds a saved configuration: 5 minutes, plan B.\<close>

definition saved_values :: "string \<rightharpoonup> reg_value" where
  "saved_values = [''AfkTimeoutMinutes'' \<mapsto> REG_DWORD 5,
     ''AfkTargetPlan'' \<mapsto> REG_BINARY [2, 0, 0, 0, 0, 0, 0, 0, 0, 0, 0, 0, 0, 0, 0, 0]]"

definition office :: host where
  "office = desk\<lparr>reg_key := Some saved_values\<rparr>"


text \<open>
  A registry key written by another hand: a timeout of 71582789 minutes, whose sixty-fold
  is 4294967340 seconds, 44 more than \<open>2 ^ 32\<close>. The program starts there, the first
  tick finds the user away for 301 seconds, then the user is back for 100 seconds.
\<close>

definition long_values :: "string \<rightharpoonup> reg_value" where
  "long_values = [''AfkTimeoutMinutes'' \<mapsto> REG_DWORD 71582789,
     ''AfkTargetPlan'' \<mapsto> REG_BINARY [2, 0, 0, 0, 0, 0, 0, 0, 0, 0, 0, 0, 0, 0, 0, 0]]"

definition long_timeout :: state where
  "long_timeout =
     run 105
       [Message (WM_TIMER TIMER_EVENT_AFK_CHECK),
        HostChange (desk\<lparr>active := PlanB, last_input := Some 302000, tick_count := 402000,
          reg_key := Some long_values\<rparr>)]
       (snd (CreateHiddenWindow True (initial (desk\<lparr>reg_key := Some long_values\<rparr>))))"

lemmas example_defs =
  PlanA_def PlanB_def desk_def office_def saved_values_def long_values_def initial_def
  scenario_A_def scenario_A_refused_def scenario_B_def scenario_C_def scenario_D_def
  stale_tracker_def

lemmas host_calls_defs =
  UpdateTrayTooltip_def SetActivePlan_def GetActivePlanGuid_def PowerSetActiveScheme_def
  Let_def split_def

lemmas timer_defs =
  WndProc_TIMER_def TIMER_EVENT_AFK_CHECK_def TIMER_EVENT_POLL_ACTIVE_def

lemmas tick_eval_defs =
  AfkCheckTick_def GetIdleSeconds_def EnumeratePlans_def StringCchCopy_def host_calls_defs

lemmas startup_eval_defs =
  CreateHiddenWindow_def AddOrUpdateTrayIcon_def AfkLoadSettings_def RegOpenKeyExW_def
  RegGetValueW_DWORD_def RegGetValueW_BINARY_def

section \<open>Basic facts\<close>

lemma activations_append: "activations (xs @ ys) = activations xs @ activations ys"
  by (induction xs rule: activations.induct) simp_all

lemma WndProc_TIMER_AFK_CHECK: "WndProc_TIMER TIMER_EVENT_AFK_CHECK s = AfkCheckTick s"
  by (simp add: timer_defs)

text \<open>A forcing tick with a target that is set and is not the plan read.\<close>

lemma AfkCheckTick_forcing:
  assumes "0 < sint (g_afkTimeoutMinutes s)"
    and "g_afkTimeoutMinutes s * 60 \<le> GetIdleSeconds (sys s)"
    and "\<not> g_afkApplied s"
    and "g_afkTargetGuid s \<noteq> 0"
    and "snd (GetActivePlanGuid 0 (sys s)) \<noteq> g_afkTargetGuid s"
  shows "globals_of (AfkCheckTick s) =
     (g_afkTargetGuid s, g_afkTimeoutMinutes s, g_afkTargetGuid s,
      snd (GetActivePlanGuid 0 (sys s)), True)"
    and "activations (calls (AfkCheckTick s)) = activations (calls s) @ [g_afkTargetGuid s]"
    and "active (sys (AfkCheckTick s)) =
      (if fst (PowerSetActiveScheme (g_afkTargetGuid s) (sys s)) then g_afkTargetGuid s
       else active (sys s))"
  using assms
  by (auto simp add: AfkCheckTick_def globals_of_def host_calls_defs activations_append)

text \<open>The tick leaves the clock alone, so the idle time it read is still the idle time.\<close>

lemma clock_AfkCheckTick:
  "last_input (sys (AfkCheckTick s)) = last_input (sys s)"
  "tick_count (sys (AfkCheckTick s)) = tick_count (sys s)"
  by (simp_all add: AfkCheckTick_def host_calls_defs)

lemma GetIdleSeconds_AfkCheckTick:
  "GetIdleSeconds (sys (AfkCheckTick s)) = GetIdleSeconds (sys s)"
  unfolding GetIdleSeconds_def by (simp only: clock_AfkCheckTick)

lemma AfkCheckTick_idle_applied:
  "g_afkApplied s \<Longrightarrow> g_afkTimeoutMinutes s * 60 \<le> GetIdleSeconds (sys s) \<Longrightarrow>
   AfkCheckTick s = s"
  by (simp add: AfkCheckTick_def)

section \<open>The forcing tick\<close>

text \<open>
  Claim C10. On a tick with a positive timeout, an idle time at or over the threshold
  and the engine INACTIVE, the engine sets \<open>applied\<close> and captures the previous plan
  (all-zero when the active plan cannot be read) whatever the target is. With an unset
  target that is all the tick does: it enters FORCED and issues no activation request.
\<close>

theorem AfkCheckTick_forces_unconditionally:
  assumes "0 < sint (g_afkTimeoutMinutes s)"
    and "g_afkTimeoutMinutes s * 60 \<le> GetIdleSeconds (sys s)"
    and "\<not> g_afkApplied s"
  shows "g_afkApplied (AfkCheckTick s)
     \<and> g_afkPrevGuid (AfkCheckTick s) = (if get_active_fails (sys s) then 0 else active (sys s))
     \<and> (g_afkTargetGuid s = 0 \<longrightarrow>
          AfkCheckTick s =
            s\<lparr>g_afkPrevGuid := (if get_active_fails (sys s) then 0 else active (sys s)),
              g_afkApplied := True\<rparr>
          \<and> activations (calls (AfkCheckTick s)) = activations (calls s))"
  using assms by (simp add: AfkCheckTick_def host_calls_defs activations_append)

theorem AfkCheckTick_forces_unconditionally_witness:
  "0 < sint (g_afkTimeoutMinutes scenario_C)
   \<and> g_afkTimeoutMinutes scenario_C * 60 \<le> GetIdleSeconds (sys scenario_C)
   \<and> \<not> g_afkApplied scenario_C
   \<and> g_afkTargetGuid scenario_C = 0
   \<and> g_afkApplied (AfkCheckTick scenario_C)
   \<and> g_afkPrevGuid (AfkCheckTick scenario_C) = PlanA
   \<and> activations (calls (AfkCheckTick scenario_C)) = []"
proof -
  have h1: "0 < sint (g_afkTimeoutMinutes scenario_C)"
    by (simp add: example_defs)
  have h2: "g_afkTimeoutMinutes scenario_C * 60 \<le> GetIdleSeconds (sys scenario_C)"
    by (simp add: GetIdleSeconds_def example_defs)
  have h3: "\<not> g_afkApplied scenario_C"
    by (simp add: example_defs)
  have t: "g_afkTargetGuid scenario_C = 0" "calls scenario_C = []"
    "get_active_fails (sys scenario_C) = False" "active (sys scenario_C) = PlanA"
    by (simp_all add: example_defs)
  show ?thesis
    using AfkCheckTick_forces_unconditionally [OF h1 h2 h3] h1 h2 h3 by (simp add: t)
qed

text \<open>
  Claim C4. When a forcing tick (INACTIVE, positive timeout, idle at or over the
  threshold, target set and not the plan read) asks for the target and the activation
  fails, nothing is rolled back: \<open>applied\<close> is set, the previous plan is recorded and the
  last known plan is the target, although the host still runs the old plan. The globals
  are those of the same tick on a host \<open>sys s'\<close> where the activation succeeds.
\<close>

theorem AfkCheckTick_no_rollback:
  assumes "0 < sint (g_afkTimeoutMinutes s)"
    and "g_afkTimeoutMinutes s * 60 \<le> GetIdleSeconds (sys s)"
    and "\<not> g_afkApplied s"
    and "g_afkTargetGuid s \<noteq> 0"
    and "snd (GetActivePlanGuid 0 (sys s)) \<noteq> g_afkTargetGuid s"
    and "\<not> fst (PowerSetActiveScheme (g_afkTargetGuid s) (sys s))"
    and "globals_of s' = globals_of s"
    and "GetIdleSeconds (sys s') = GetIdleSeconds (sys s)"
    and "GetActivePlanGuid 0 (sys s') = GetActivePlanGuid 0 (sys s)"
    and "fst (PowerSetActiveScheme (g_afkTargetGuid s) (sys s'))"
  shows "g_afkApplied (AfkCheckTick s)
     \<and> g_afkPrevGuid (AfkCheckTick s) = (if get_active_fails (sys s) then 0 else active (sys s))
     \<and> g_lastActiveGuid (AfkCheckTick s) = g_afkTargetGuid s
     \<and> activations (calls (AfkCheckTick s)) = activations (calls s) @ [g_afkTargetGuid s]
     \<and> active (sys (AfkCheckTick s)) = active (sys s)
     \<and> active (sys (AfkCheckTick s')) = g_afkTargetGuid s
     \<and> globals_of (AfkCheckTick s) = globals_of (AfkCheckTick s')"
proof -
  have g': "g_afkTimeoutMinutes s' = g_afkTimeoutMinutes s" "g_afkApplied s' = g_afkApplied s"
    "g_afkTargetGuid s' = g_afkTargetGuid s"
    using assms(7) by (simp_all add: globals_of_def)
  have pre': "0 < sint (g_afkTimeoutMinutes s')"
    "g_afkTimeoutMinutes s' * 60 \<le> GetIdleSeconds (sys s')"
    "\<not> g_afkApplied s'" "g_afkTargetGuid s' \<noteq> 0"
    "snd (GetActivePlanGuid 0 (sys s')) \<noteq> g_afkTargetGuid s'"
    using assms(1-5,8,9) by (simp_all add: g')
  note a = AfkCheckTick_forcing [OF assms(1-5)]
  note b = AfkCheckTick_forcing [OF pre']
  have prev: "snd (GetActivePlanGuid 0 (sys s)) =
      (if get_active_fails (sys s) then 0 else active (sys s))"
    by (simp add: GetActivePlanGuid_def)
  show ?thesis
    using a b assms(6,10) by (simp add: globals_of_def g' assms(9) prev)
qed

theorem AfkCheckTick_no_rollback_witness:
  "\<not> fst (PowerSetActiveScheme PlanB (sys scenario_A_refused))
   \<and> fst (PowerSetActiveScheme PlanB (sys scenario_A))
   \<and> g_afkApplied (AfkCheckTick scenario_A_refused)
   \<and> g_afkPrevGuid (AfkCheckTick scenario_A_refused) = PlanA
   \<and> g_lastActiveGuid (AfkCheckTick scenario_A_refused) = PlanB
   \<and> activations (calls (AfkCheckTick scenario_A_refused)) = [PlanB]
   \<and> active (sys (AfkCheckTick scenario_A_refused)) = PlanA
   \<and> active (sys (AfkCheckTick scenario_A)) = PlanB
   \<and> globals_of (AfkCheckTick scenario_A_refused) = globals_of (AfkCheckTick scenario_A)"
proof -
  have t: "g_afkTargetGuid scenario_A_refused = PlanB" "calls scenario_A_refused = []"
    "get_active_fails (sys scenario_A_refused) = False"
    "active (sys scenario_A_refused) = PlanA"
    by (simp_all add: example_defs)
  have h1: "0 < sint (g_afkTimeoutMinutes scenario_A_refused)"
    by (simp add: example_defs)
  have h2: "g_afkTimeoutMinutes scenario_A_refused * 60
      \<le> GetIdleSeconds (sys scenario_A_refused)"
    by (simp add: GetIdleSeconds_def example_defs)
  have h3: "\<not> g_afkApplied scenario_A_refused"
    by (simp add: example_defs)
  have h4: "g_afkTargetGuid scenario_A_refused \<noteq> 0"
    by (simp add: example_defs)
  have h5: "snd (GetActivePlanGuid 0 (sys scenario_A_refused))
      \<noteq> g_afkTargetGuid scenario_A_refused"
    by (simp add: GetActivePlanGuid_def example_defs)
  have h6: "\<not> fst (PowerSetActiveScheme (g_afkTargetGuid scenario_A_refused)
      (sys scenario_A_refused))"
    by (simp add: PowerSetActiveScheme_def example_defs)
  have h7: "globals_of scenario_A = globals_of scenario_A_refused"
    by (simp add: globals_of_def example_defs)
  have h8: "GetIdleSeconds (sys scenario_A) = GetIdleSeconds (sys scenario_A_refused)"
    by (simp add: GetIdleSeconds_def example_defs)
  have h9: "GetActivePlanGuid 0 (sys scenario_A) = GetActivePlanGuid 0 (sys scenario_A_refused)"
    by (simp add: GetActivePlanGuid_def example_defs)
  have h10: "fst (PowerSetActiveScheme (g_afkTargetGuid scenario_A_refused) (sys scenario_A))"
    by (simp add: PowerSetActiveScheme_def example_defs)
  show ?thesis
    using AfkCheckTick_no_rollback [OF h1 h2 h3 h4 h5 h6 h7 h8 h9 h10] h6 h10
    by (simp add: t)
qed

section \<open>The restoring tick\<close>

text \<open>
  From FORCED, a tick with a positive timeout and an idle time under the threshold,
  the threshold being the 32-bit product of line 647: the tick reads the active plan
  (all-zero when unreadable); when that differs from the previous plan and the previous
  plan is set, it asks once for the previous plan and makes it the last known plan;
  otherwise it asks for nothing. In both cases \<open>applied\<close> is cleared.
\<close>

lemma AfkCheckTick_restores:
  assumes "0 < sint (g_afkTimeoutMinutes s)"
    and "GetIdleSeconds (sys s) < g_afkTimeoutMinutes s * 60"
    and "g_afkApplied s"
  shows "\<not> g_afkApplied (AfkCheckTick s)
     \<and> (if snd (GetActivePlanGuid 0 (sys s)) \<noteq> g_afkPrevGuid s \<and> g_afkPrevGuid s \<noteq> 0
         then activations (calls (AfkCheckTick s)) = activations (calls s) @ [g_afkPrevGuid s]
            \<and> g_lastActiveGuid (AfkCheckTick s) = g_afkPrevGuid s
         else AfkCheckTick s = s\<lparr>g_afkApplied := False\<rparr>)"
proof -
  from assms(2) have "\<not> g_afkTimeoutMinutes s * 60 \<le> GetIdleSeconds (sys s)"
    by simp
  with assms(1,3) show ?thesis
    by (simp add: AfkCheckTick_def host_calls_defs activations_append)
qed

text \<open>
  The same with the threshold in plain integers, for a timeout whose sixty-fold fits
  32 bits: every timeout up to 71582788 minutes, those of the menu among them.
\<close>

lemma threshold_no_overflow:
  fixes t :: "32 word"
  assumes "unat t * 60 < 2 ^ 32"
  shows "unat (t * 60) = unat t * 60"
proof -
  have "unat t * unat (60 :: 32 word) < 2 ^ LENGTH(32)"
    using assms by simp
  then have "unat (t * 60) = unat t * unat (60 :: 32 word)"
    by (simp only: unat_mult_lem)
  then show ?thesis by simp
qed

lemma AfkCheckTick_restores_no_overflow:
  assumes "0 < sint (g_afkTimeoutMinutes s)"
    and "unat (g_afkTimeoutMinutes s) * 60 < 2 ^ 32"
    and "unat (GetIdleSeconds (sys s)) < unat (g_afkTimeoutMinutes s) * 60"
    and "g_afkApplied s"
  shows "\<not> g_afkApplied (AfkCheckTick s)
     \<and> (if snd (GetActivePlanGuid 0 (sys s)) \<noteq> g_afkPrevGuid s \<and> g_afkPrevGuid s \<noteq> 0
         then activations (calls (AfkCheckTick s)) = activations (calls s) @ [g_afkPrevGuid s]
            \<and> g_lastActiveGuid (AfkCheckTick s) = g_afkPrevGuid s
         else AfkCheckTick s = s\<lparr>g_afkApplied := False\<rparr>)"
proof -
  have "GetIdleSeconds (sys s) < g_afkTimeoutMinutes s * 60"
    using assms(3) by (simp add: word_less_nat_alt threshold_no_overflow [OF assms(2)])
  then show ?thesis by (rule AfkCheckTick_restores [OF assms(1) _ assms(4)])
qed

text \<open>Scenario B: the tick asks for plan A and leaves FORCED.\<close>

lemma AfkCheckTick_restores_scenario_B:
  "0 < sint (g_afkTimeoutMinutes scenario_B)
   \<and> unat (g_afkTimeoutMinutes scenario_B) * 60 < 2 ^ 32
   \<and> unat (GetIdleSeconds (sys scenario_B)) < unat (g_afkTimeoutMinutes scenario_B) * 60
   \<and> g_afkApplied scenario_B
   \<and> \<not> g_afkApplied (AfkCheckTick scenario_B)
   \<and> activations (calls (AfkCheckTick scenario_B)) = [PlanA]
   \<and> g_lastActiveGuid (AfkCheckTick scenario_B) = PlanA"
proof -
  have h1: "0 < sint (g_afkTimeoutMinutes scenario_B)"
    by (simp add: example_defs)
  have h2: "unat (g_afkTimeoutMinutes scenario_B) * 60 < 2 ^ 32"
    by (simp add: example_defs)
  have h3: "unat (GetIdleSeconds (sys scenario_B)) < unat (g_afkTimeoutMinutes scenario_B) * 60"
    by (simp add: GetIdleSeconds_def example_defs)
  have h4: "g_afkApplied scenario_B"
    by (simp add: example_defs)
  have t: "snd (GetActivePlanGuid 0 (sys scenario_B)) = PlanB" "g_afkPrevGuid scenario_B = PlanA"
    "calls scenario_B = []" "PlanB \<noteq> PlanA" "PlanA \<noteq> 0"
    by (simp_all add: GetActivePlanGuid_def example_defs)
  show ?thesis
    using AfkCheckTick_restores_no_overflow [OF h1 h2 h3 h4] h1 h2 h3 h4 by (simp add: t)
qed

lemma long_timeout_state:
  "g_afkTimeoutMinutes long_timeout = 71582789"
  "g_afkApplied long_timeout"
  "g_afkPrevGuid long_timeout = PlanA"
  "GetIdleSeconds (sys long_timeout) = 100"
  "GetActivePlanGuid 0 (sys long_timeout) = (True, PlanB)"
  by (simp_all add: long_timeout_def startup_eval_defs tick_eval_defs timer_defs example_defs)

text \<open>
  Claim C6. From FORCED, the first tick with a positive timeout and fewer idle seconds
  than sixty times the timeout restores the previous plan and clears \<open>applied\<close>. The
  program does so whenever the product fits 32 bits, and not beyond, because line 647
  multiplies in 32 bits. Started on a registry timeout of 71582789 minutes, it forces
  plan B after 301 idle seconds; back after 100 idle seconds, far under the 4294967340
  of the threshold, the user finds the tick comparing with 44: it asks for nothing and
  the engine stays FORCED on plan B, with plan A as the previous plan.
\<close>

theorem restoring_tick_threshold_wraps:
  "0 < sint (g_afkTimeoutMinutes long_timeout)
   \<and> g_afkApplied long_timeout
   \<and> unat (GetIdleSeconds (sys long_timeout)) = 100
   \<and> unat (g_afkTimeoutMinutes long_timeout) * 60 = 4294967340
   \<and> g_afkPrevGuid long_timeout = PlanA \<and> PlanA \<noteq> 0
   \<and> GetActivePlanGuid 0 (sys long_timeout) = (True, PlanB) \<and> PlanB \<noteq> PlanA
   \<and> g_afkTimeoutMinutes long_timeout * 60 = 44
   \<and> g_afkApplied (AfkCheckTick long_timeout)
   \<and> calls (AfkCheckTick long_timeout) = calls long_timeout"
  by (simp add: AfkCheckTick_def long_timeout_state PlanA_def PlanB_def)

section \<open>Runs of ticks\<close>

lemma run_idle_applied:
  "g_afkApplied s \<Longrightarrow> g_afkTimeoutMinutes s * 60 \<le> GetIdleSeconds (sys s) \<Longrightarrow>
   list_all (still_idle (g_afkTimeoutMinutes s * 60)) evs \<Longrightarrow>
   calls (run IDM_EXIT evs s) = calls s \<and> g_afkApplied (run IDM_EXIT evs s)"
proof (induction evs arbitrary: s)
  case Nil
  then show ?case by simp
next
  case (Cons e evs)
  show ?case
  proof (cases e)
    case (Message m)
    with Cons.prems have "step IDM_EXIT e s = s"
      by (simp add: WndProc_TIMER_AFK_CHECK AfkCheckTick_idle_applied)
    with Cons show ?thesis by simp
  next
    case (HostChange h)
    with Cons.prems Cons.IH [of "s\<lparr>sys := h\<rparr>"] show ?thesis by simp
  qed
qed

text \<open>
  Claim C5. When a tick forces the switch (positive timeout, idle at or over the
  threshold, target set and not the plan read: one request for the target, \<open>applied\<close>
  set), every later tick with the idle time still at or over the threshold asks for
  nothing, whatever happens to the host in between: the activation requests of the
  whole run are the one request of the forcing tick.
\<close>

theorem forcing_is_idempotent:
  assumes "0 < sint (g_afkTimeoutMinutes s)"
    and "g_afkTimeoutMinutes s * 60 \<le> GetIdleSeconds (sys s)"
    and "\<not> g_afkApplied s"
    and "g_afkTargetGuid s \<noteq> 0"
    and "snd (GetActivePlanGuid 0 (sys s)) \<noteq> g_afkTargetGuid s"
    and "list_all (still_idle (g_afkTimeoutMinutes s * 60)) evs"
  shows "activations (calls (AfkCheckTick s)) = activations (calls s) @ [g_afkTargetGuid s]
     \<and> g_afkApplied (AfkCheckTick s)
     \<and> activations (calls (run IDM_EXIT evs (AfkCheckTick s)))
          = activations (calls s) @ [g_afkTargetGuid s]
     \<and> g_afkApplied (run IDM_EXIT evs (AfkCheckTick s))"
proof -
  note g = AfkCheckTick_forcing [OF assms(1-5)]
  from g(1) have t: "g_afkTimeoutMinutes (AfkCheckTick s) = g_afkTimeoutMinutes s"
    and a: "g_afkApplied (AfkCheckTick s)"
    by (simp_all add: globals_of_def)
  have "calls (run IDM_EXIT evs (AfkCheckTick s)) = calls (AfkCheckTick s)
      \<and> g_afkApplied (run IDM_EXIT evs (AfkCheckTick s))"
    by (rule run_idle_applied) (simp_all add: a t GetIdleSeconds_AfkCheckTick assms(2,6))
  with g(2) a show ?thesis by simp
qed

theorem forcing_is_idempotent_witness:
  "snd (GetActivePlanGuid 0 (sys scenario_A)) \<noteq> g_afkTargetGuid scenario_A
   \<and> list_all (still_idle (g_afkTimeoutMinutes scenario_A * 60)) scenario_A_away
   \<and> activations (calls (AfkCheckTick scenario_A)) = [PlanB]
   \<and> activations (calls (run 105 scenario_A_away (AfkCheckTick scenario_A))) = [PlanB]
   \<and> g_afkApplied (run 105 scenario_A_away (AfkCheckTick scenario_A))"
proof -
  have t: "g_afkTargetGuid scenario_A = PlanB" "calls scenario_A = []"
    by (simp_all add: example_defs)
  have h1: "0 < sint (g_afkTimeoutMinutes scenario_A)"
    by (simp add: example_defs)
  have h2: "g_afkTimeoutMinutes scenario_A * 60 \<le> GetIdleSeconds (sys scenario_A)"
    by (simp add: GetIdleSeconds_def example_defs)
  have h3: "\<not> g_afkApplied scenario_A"
    by (simp add: example_defs)
  have h4: "g_afkTargetGuid scenario_A \<noteq> 0"
    by (simp add: example_defs)
  have h5: "snd (GetActivePlanGuid 0 (sys scenario_A)) \<noteq> g_afkTargetGuid scenario_A"
    by (simp add: GetActivePlanGuid_def example_defs)
  have h6: "list_all (still_idle (g_afkTimeoutMinutes scenario_A * 60)) scenario_A_away"
    by (simp add: scenario_A_away_def GetIdleSeconds_def example_defs)
  show ?thesis
    using forcing_is_idempotent [OF h1 h2 h3 h4 h5 h6, of 105] h5 h6 by (simp add: t)
qed

text \<open>With an unset target: what one tick keeps, and what a run keeps.\<close>

lemma AfkCheckTick_unset_stable:
  assumes "g_afkTargetGuid s = 0"
    and "g_afkApplied s \<longrightarrow> g_afkPrevGuid s = a"
    and "GetActivePlanGuid 0 (sys s) = (True, a)"
  shows "g_afkTargetGuid (AfkCheckTick s) = 0
     \<and> (g_afkApplied (AfkCheckTick s) \<longrightarrow> g_afkPrevGuid (AfkCheckTick s) = a)
     \<and> sys (AfkCheckTick s) = sys s \<and> calls (AfkCheckTick s) = calls s"
  using assms by (simp add: AfkCheckTick_def Let_def)

lemma run_unset_stable:
  "g_afkTargetGuid s = 0 \<Longrightarrow> (g_afkApplied s \<longrightarrow> g_afkPrevGuid s = a) \<Longrightarrow>
   GetActivePlanGuid 0 (sys s) = (True, a) \<Longrightarrow> list_all (same_plan a) evs \<Longrightarrow>
   calls (run IDM_EXIT evs s) = calls s"
proof (induction evs arbitrary: s)
  case Nil
  then show ?case by simp
next
  case (Cons e evs)
  show ?case
  proof (cases e)
    case (Message m)
    with Cons.prems have m: "step IDM_EXIT e s = AfkCheckTick s"
      by (simp add: WndProc_TIMER_AFK_CHECK)
    note st = AfkCheckTick_unset_stable [OF Cons.prems(1-3)]
    have "calls (run IDM_EXIT evs (AfkCheckTick s)) = calls (AfkCheckTick s)"
      using Cons.prems st by (intro Cons.IH) simp_all
    with st m show ?thesis by simp
  next
    case (HostChange h)
    with Cons.prems Cons.IH [of "s\<lparr>sys := h\<rparr>"] show ?thesis by simp
  qed
qed

text \<open>A run of ticks and host changes keeps the target.\<close>

lemma target_AfkCheckTick: "g_afkTargetGuid (AfkCheckTick s) = g_afkTargetGuid s"
  by (simp add: AfkCheckTick_def host_calls_defs)

lemma target_run:
  "list_all tick_or_host evs \<Longrightarrow>
   g_afkTargetGuid (run IDM_EXIT evs s) = g_afkTargetGuid s"
proof (induction evs arbitrary: s)
  case Nil
  then show ?case by simp
next
  case (Cons e evs)
  then show ?case
    by (cases e) (simp_all add: WndProc_TIMER_AFK_CHECK target_AfkCheckTick)
qed

text \<open>With an unset target, the requests of one tick.\<close>

lemma AfkCheckTick_unset_requests:
  assumes "g_afkTargetGuid s = 0"
  shows "activations (calls (AfkCheckTick s)) =
     activations (calls s) @
       (if 0 < sint (g_afkTimeoutMinutes s) \<and> g_afkApplied s
           \<and> GetIdleSeconds (sys s) < g_afkTimeoutMinutes s * 60
           \<and> snd (GetActivePlanGuid 0 (sys s)) \<noteq> g_afkPrevGuid s \<and> g_afkPrevGuid s \<noteq> 0
        then [g_afkPrevGuid s] else [])"
  using assms
  by (auto simp add: AfkCheckTick_def host_calls_defs activations_append not_le)

text \<open>
  Claim C2, as stated: with an unset target no run of ticks ever asks for an
  activation. It fails. In scenario C the first tick enters FORCED and captures plan
  A; another program then activates plan B; when the user is back the restoring tick
  finds B where it left A and asks for plan A.
\<close>

theorem unset_target_never_fires_counterexample:
  "g_afkTargetGuid scenario_C = 0
   \<and> 0 < sint (g_afkTimeoutMinutes scenario_C)
   \<and> list_all tick_or_host scenario_C_switched
   \<and> g_afkTargetGuid (run 105 scenario_C_switched scenario_C) = 0
   \<and> activations (calls scenario_C) = []
   \<and> activations (calls (run 105 scenario_C_switched scenario_C)) = [PlanA]"
  by (simp add: scenario_C_switched_def timer_defs tick_eval_defs example_defs)

text \<open>
  Claim C2, amended. Take any run of ticks with an unset target, whatever the idle
  times and whatever the host does in between. The target is still unset after it, and
  the next tick asks for an activation in one case only: the engine is FORCED with a
  positive timeout, the idle time is under the threshold that the tick computes (the
  32-bit product of line 647), and the plan read (all-zero when unreadable) is not the
  previous plan, which is set. It then asks once, for the previous plan. In every other case, a forcing tick among them, it asks for nothing;
  and it never asks for the unset target.
\<close>

theorem unset_target_requests:
  assumes "g_afkTargetGuid s = 0"
    and "list_all tick_or_host evs"
    and "s' = run IDM_EXIT evs s"
  shows "g_afkTargetGuid s' = 0
     \<and> activations (calls (AfkCheckTick s')) =
         activations (calls s') @
           (if 0 < sint (g_afkTimeoutMinutes s') \<and> g_afkApplied s'
               \<and> GetIdleSeconds (sys s') < g_afkTimeoutMinutes s' * 60
               \<and> snd (GetActivePlanGuid 0 (sys s')) \<noteq> g_afkPrevGuid s'
               \<and> g_afkPrevGuid s' \<noteq> 0
            then [g_afkPrevGuid s'] else [])"
proof -
  have t: "g_afkTargetGuid s' = 0"
    using assms by (simp add: target_run)
  from t AfkCheckTick_unset_requests [OF t] show ?thesis by simp
qed

lemma scenario_C_returned_state:
  "g_afkTimeoutMinutes (run 105 scenario_C_returned scenario_C) = 10"
  "g_afkApplied (run 105 scenario_C_returned scenario_C)"
  "g_afkPrevGuid (run 105 scenario_C_returned scenario_C) = PlanA"
  "GetIdleSeconds (sys (run 105 scenario_C_returned scenario_C)) = 0"
  "GetActivePlanGuid 0 (sys (run 105 scenario_C_returned scenario_C)) = (True, PlanB)"
  "calls (run 105 scenario_C_returned scenario_C) = []"
  by (simp_all add: scenario_C_returned_def timer_defs tick_eval_defs example_defs)

theorem unset_target_requests_witness:
  "g_afkTargetGuid scenario_C = 0
   \<and> list_all tick_or_host scenario_C_returned
   \<and> g_afkTargetGuid (run 105 scenario_C_returned scenario_C) = 0
   \<and> activations (calls (AfkCheckTick scenario_C)) = []
   \<and> activations (calls (AfkCheckTick (run 105 scenario_C_returned scenario_C))) = [PlanA]"
proof -
  have h1: "g_afkTargetGuid scenario_C = 0"
    by (simp add: example_defs)
  have h2: "list_all tick_or_host scenario_C_returned"
    by (simp add: scenario_C_returned_def)
  have h0: "list_all tick_or_host []"
    by simp
  have c: "\<not> g_afkApplied scenario_C" "calls scenario_C = []"
    by (simp_all add: example_defs)
  have first: "activations (calls (AfkCheckTick scenario_C)) = []"
    using unset_target_requests [OF h1 h0, of scenario_C 105] by (simp add: c)
  have later: "g_afkTargetGuid (run 105 scenario_C_returned scenario_C) = 0
      \<and> activations (calls (AfkCheckTick (run 105 scenario_C_returned scenario_C))) = [PlanA]"
    using unset_target_requests [OF h1 h2 refl, of 105]
    by (simp add: scenario_C_returned_state PlanA_def PlanB_def)
  from h1 h2 first later show ?thesis by simp
qed

section \<open>The disabled tick\<close>












text \<open>What the save leaves behind.\<close>

lemma AfkSaveSettings_globals:
  "g_lastActiveGuid (AfkSaveSettings s) = g_lastActiveGuid s"
  "g_afkApplied (AfkSaveSettings s) = g_afkApplied s"
  "g_afkTimeoutMinutes (AfkSaveSettings s) = g_afkTimeoutMinutes s"
  "calls (AfkSaveSettings s) = calls s @ [CallAfkSaveSettings]"
  by (simp_all add: AfkSaveSettings_def Let_def split: option.splits)

lemma AfkSaveSettings_saves:
  "\<not> reg_denied (sys s) \<longrightarrow>
     (\<exists>vals. reg_key (sys (AfkSaveSettings s)) = Some vals
        \<and> vals ''AfkTimeoutMinutes'' = Some (REG_DWORD (g_afkTimeoutMinutes s)))"
  by (simp add: AfkSaveSettings_def RegCreateKeyExW_def Let_def split: option.splits)





section \<open>The active plan tracker\<close>

text \<open>
  Claim C3, as stated: the change notification and the periodic poll perform the same
  reconcile operation. They do not. With plan B active and plan A as the last known
  plan, the poll stores B, while the notification leaves A; and where the last known
  plan is already right the poll is silent, while the notification refreshes again.
\<close>

theorem notification_reconciles_counterexample:
  "g_lastActiveGuid stale_tracker = PlanA
   \<and> GetActivePlanGuid 0 (sys stale_tracker) = (True, PlanB) \<and> PlanA \<noteq> PlanB
   \<and> g_lastActiveGuid (WndProc 105 (WM_TIMER TIMER_EVENT_POLL_ACTIVE) stale_tracker) = PlanB
   \<and> g_lastActiveGuid (WndProc 105 (WM_POWERBROADCAST PBT_POWERSETTINGCHANGE) stale_tracker)
       = PlanA
   \<and> calls (WndProc 105 (WM_TIMER TIMER_EVENT_POLL_ACTIVE)
        (WndProc 105 (WM_TIMER TIMER_EVENT_POLL_ACTIVE) stale_tracker))
       = [CallUpdateTrayTooltip]
   \<and> calls (WndProc 105 (WM_POWERBROADCAST PBT_POWERSETTINGCHANGE)
        (WndProc 105 (WM_TIMER TIMER_EVENT_POLL_ACTIVE) stale_tracker))
       = [CallUpdateTrayTooltip, CallUpdateTrayTooltip]"
  by (simp add: WndProc_TIMER_def TIMER_EVENT_POLL_ACTIVE_def EnumeratePlans_def
      host_calls_defs example_defs)

text \<open>
  Claim C3, amended. Only the periodic poll reconciles: it reads the active plan and,
  when the read succeeds and differs from the last known plan, stores it and refreshes
  the tooltip; otherwise it does nothing. The change notification refreshes the tooltip
  every time and never touches the last known plan.
\<close>

theorem poll_reconciles_notification_refreshes:
  "g_lastActiveGuid (WndProc IDM_EXIT (WM_TIMER TIMER_EVENT_POLL_ACTIVE) s) =
      (if \<not> get_active_fails (sys s) \<and> active (sys s) \<noteq> g_lastActiveGuid s
       then active (sys s) else g_lastActiveGuid s)
   \<and> calls (WndProc IDM_EXIT (WM_TIMER TIMER_EVENT_POLL_ACTIVE) s) =
      (if \<not> get_active_fails (sys s) \<and> active (sys s) \<noteq> g_lastActiveGuid s
       then calls s @ [CallUpdateTrayTooltip] else calls s)
   \<and> g_lastActiveGuid (WndProc IDM_EXIT (WM_POWERBROADCAST PBT_POWERSETTINGCHANGE) s) =
      g_lastActiveGuid s
   \<and> calls (WndProc IDM_EXIT (WM_POWERBROADCAST PBT_POWERSETTINGCHANGE) s) =
      calls s @ [CallUpdateTrayTooltip]"
  by (simp add: WndProc_TIMER_def host_calls_defs)

theorem poll_reconciles_notification_refreshes_witness:
  "g_lastActiveGuid (WndProc 105 (WM_TIMER TIMER_EVENT_POLL_ACTIVE) scenario_B) = PlanB
   \<and> calls (WndProc 105 (WM_TIMER TIMER_EVENT_POLL_ACTIVE) scenario_B) = []
   \<and> g_lastActiveGuid (WndProc 105 (WM_POWERBROADCAST PBT_POWERSETTINGCHANGE) scenario_B)
       = PlanB
   \<and> calls (WndProc 105 (WM_POWERBROADCAST PBT_POWERSETTINGCHANGE) scenario_B)
       = [CallUpdateTrayTooltip]"
proof -
  have t: "g_lastActiveGuid scenario_B = PlanB" "active (sys scenario_B) = PlanB"
    "calls scenario_B = []"
    by (simp_all add: example_defs)
  show ?thesis
    using poll_reconciles_notification_refreshes [of 105 scenario_B]
    by (simp only: t) simp
qed

section \<open>Switching the feature off\<close>

text \<open>
  Claim C7. The command \<^verbatim>\<open>IDM_AFK_OFF\<close>, received while FORCED with a previous plan
  that is set and is not the plan read, restores at once: it asks once for the previous
  plan, makes it the last known plan and clears \<open>applied\<close>. The timeout becomes 0 and is
  saved before the handler returns: the save is its last call, and unless the registry
  refuses the key, the key then holds the DWORD 0 under \<^verbatim>\<open>AfkTimeoutMinutes\<close>.
\<close>

theorem IDM_AFK_OFF_restores_and_persists:
  assumes "IDM_EXIT \<noteq> IDM_AFK_OFF"
    and "g_afkApplied s"
    and "g_afkPrevGuid s \<noteq> 0"
    and "snd (GetActivePlanGuid 0 (sys s)) \<noteq> g_afkPrevGuid s"
  shows "activations (calls (WndProc IDM_EXIT (WM_COMMAND IDM_AFK_OFF) s))
           = activations (calls s) @ [g_afkPrevGuid s]
     \<and> g_lastActiveGuid (WndProc IDM_EXIT (WM_COMMAND IDM_AFK_OFF) s) = g_afkPrevGuid s
     \<and> \<not> g_afkApplied (WndProc IDM_EXIT (WM_COMMAND IDM_AFK_OFF) s)
     \<and> g_afkTimeoutMinutes (WndProc IDM_EXIT (WM_COMMAND IDM_AFK_OFF) s) = 0
     \<and> last (calls (WndProc IDM_EXIT (WM_COMMAND IDM_AFK_OFF) s)) = CallAfkSaveSettings
     \<and> (\<not> reg_denied (sys s) \<longrightarrow>
          (\<exists>vals. reg_key (sys (WndProc IDM_EXIT (WM_COMMAND IDM_AFK_OFF) s)) = Some vals
             \<and> vals ''AfkTimeoutMinutes'' = Some (REG_DWORD 0)))"
proof -
  define s1 where "s1 = UpdateTrayTooltip
     ((snd (SetActivePlan (g_afkPrevGuid s) (s\<lparr>g_afkTimeoutMinutes := 0\<rparr>)))
        \<lparr>g_lastActiveGuid := g_afkPrevGuid s, g_afkApplied := False\<rparr>)"
  have w: "WndProc IDM_EXIT (WM_COMMAND IDM_AFK_OFF) s = AfkSaveSettings s1"
    using assms
    by (simp add: WndProc_COMMAND_def IDM_AFK_OFF_def IDM_REFRESH_def IDM_STARTUP_def
        s1_def Let_def split_def)
  have f: "g_lastActiveGuid s1 = g_afkPrevGuid s" "\<not> g_afkApplied s1"
    "g_afkTimeoutMinutes s1 = 0" "reg_denied (sys s1) = reg_denied (sys s)"
    "calls s1 = calls s @ [CallSetActivePlan (g_afkPrevGuid s), CallUpdateTrayTooltip]"
    by (simp_all add: s1_def host_calls_defs)
  show ?thesis
    unfolding w
    using AfkSaveSettings_saves [of s1]
    by (simp add: f AfkSaveSettings_globals activations_append)
qed

theorem IDM_AFK_OFF_restores_and_persists_witness:
  "g_afkApplied scenario_D
   \<and> g_afkPrevGuid scenario_D = PlanA \<and> PlanA \<noteq> 0
   \<and> snd (GetActivePlanGuid 0 (sys scenario_D)) = PlanB \<and> PlanB \<noteq> PlanA
   \<and> \<not> reg_denied (sys scenario_D)
   \<and> activations (calls (WndProc 105 (WM_COMMAND IDM_AFK_OFF) scenario_D)) = [PlanA]
   \<and> g_lastActiveGuid (WndProc 105 (WM_COMMAND IDM_AFK_OFF) scenario_D) = PlanA
   \<and> \<not> g_afkApplied (WndProc 105 (WM_COMMAND IDM_AFK_OFF) scenario_D)
   \<and> g_afkTimeoutMinutes (WndProc 105 (WM_COMMAND IDM_AFK_OFF) scenario_D) = 0
   \<and> (\<exists>vals. reg_key (sys (WndProc 105 (WM_COMMAND IDM_AFK_OFF) scenario_D)) = Some vals
         \<and> vals ''AfkTimeoutMinutes'' = Some (REG_DWORD 0))"
proof -
  have h1: "105 \<noteq> IDM_AFK_OFF"
    by (simp add: IDM_AFK_OFF_def)
  have h2: "g_afkApplied scenario_D"
    by (simp add: example_defs)
  have t: "g_afkPrevGuid scenario_D = PlanA" "PlanA \<noteq> 0" "PlanB \<noteq> PlanA"
    "snd (GetActivePlanGuid 0 (sys scenario_D)) = PlanB" "calls scenario_D = []"
    "\<not> reg_denied (sys scenario_D)"
    by (simp_all add: GetActivePlanGuid_def example_defs)
  have h3: "g_afkPrevGuid scenario_D \<noteq> 0"
    by (simp add: t)
  have h4: "snd (GetActivePlanGuid 0 (sys scenario_D)) \<noteq> g_afkPrevGuid scenario_D"
    by (simp add: t)
  show ?thesis
    using IDM_AFK_OFF_restores_and_persists [OF h1 h2 h3 h4] h2 by (simp add: t)
qed

section \<open>Persistence\<close>

text \<open>Sixteen bytes read into a \<^verbatim>\<open>GUID\<close> and written back are the same bytes.\<close>

lemma ucast_low_byte:
  "(ucast (ucast (b :: 8 word) OR push_bit 8 (w :: 128 word)) :: 8 word) = b"
  by (rule bit_eqI) (auto simp add: bit_simps)

lemma drop_low_byte:
  "drop_bit 8 (ucast (b :: 8 word) OR push_bit 8 (w :: 128 word)) = take_bit 120 w"
  by (rule bit_eqI) (auto simp add: bit_simps dest: bit_imp_le_length)

lemma guid_bytes_Suc_OR:
  "guid_bytes (Suc n) (ucast (b :: 8 word) OR push_bit 8 w) = b # guid_bytes n (take_bit 120 w)"
  by (simp only: guid_bytes.simps ucast_low_byte drop_low_byte)

lemma guid_bytes_take_bit:
  "n \<le> k \<Longrightarrow> guid_bytes n (take_bit (8 * k) w) = guid_bytes n w"
proof (induction n arbitrary: w k)
  case 0
  then show ?case by simp
next
  case (Suc n)
  then obtain k' where k: "k = Suc k'" and le: "n \<le> k'" by (cases k) auto
  have a: "(ucast (take_bit (8 * k) w) :: 8 word) = ucast w"
    by (rule bit_eqI) (auto simp add: bit_simps k)
  have b: "drop_bit 8 (take_bit (8 * k) w) = take_bit (8 * k') (drop_bit 8 w)"
    by (rule bit_eqI) (auto simp add: bit_simps k)
  show ?case using Suc.IH [OF le] by (simp add: a b)
qed

lemma guid_bytes_bytes_guid:
  "length bs \<le> 16 \<Longrightarrow> guid_bytes (length bs) (bytes_guid bs) = bs"
proof (induction bs)
  case Nil
  then show ?case by simp
next
  case (Cons b bs)
  then have le: "length bs \<le> 15" by simp
  have "guid_bytes (length bs) (take_bit (8 * 15) (bytes_guid bs))
      = guid_bytes (length bs) (bytes_guid bs)"
    by (rule guid_bytes_take_bit [OF le])
  with Cons show ?case by (simp add: guid_bytes_Suc_OR del: guid_bytes.simps)
qed

text \<open>
  Claim C8. When the registry key holds a saved configuration, that is a DWORD under
  \<^verbatim>\<open>AfkTimeoutMinutes\<close> and sixteen bytes under \<^verbatim>\<open>AfkTargetPlan\<close>, loading it
  and saving what was loaded leaves the key as it was, value for value and byte for
  byte, whatever the globals held before and whether or not the registry can be opened.
\<close>

theorem AfkSettings_round_trip:
  assumes "reg_key (sys s) = Some vals"
    and "vals ''AfkTimeoutMinutes'' = Some (REG_DWORD dw)"
    and "vals ''AfkTargetPlan'' = Some (REG_BINARY bs)"
    and "length bs = 16"
  shows "reg_key (sys (AfkSaveSettings (AfkLoadSettings s))) = reg_key (sys s)"
proof (cases "reg_denied (sys s)")
  case True
  then show ?thesis
    by (simp add: AfkSaveSettings_def AfkLoadSettings_def RegOpenKeyExW_def RegCreateKeyExW_def)
next
  case False
  have bytes: "guid_bytes 16 (bytes_guid bs) = bs"
    using guid_bytes_bytes_guid [of bs] assms(4) by simp
  have load: "AfkLoadSettings s = s\<lparr>g_afkTimeoutMinutes := dw, g_afkTargetGuid := bytes_guid bs\<rparr>"
    using False assms
    by (simp add: AfkLoadSettings_def RegOpenKeyExW_def RegGetValueW_DWORD_def
        RegGetValueW_BINARY_def)
  have "vals(''AfkTimeoutMinutes'' \<mapsto> REG_DWORD dw, ''AfkTargetPlan'' \<mapsto> REG_BINARY bs) = vals"
    using assms(2,3) by (auto simp add: fun_upd_idem)
  then show ?thesis
    using False assms(1)
    by (simp add: load AfkSaveSettings_def RegCreateKeyExW_def bytes del: guid_bytes.simps)
qed

theorem AfkSettings_round_trip_witness:
  "reg_key (sys (initial office)) = Some saved_values
   \<and> saved_values ''AfkTimeoutMinutes'' = Some (REG_DWORD 5)
   \<and> saved_values ''AfkTargetPlan''
       = Some (REG_BINARY [2, 0, 0, 0, 0, 0, 0, 0, 0, 0, 0, 0, 0, 0, 0, 0])
   \<and> reg_key (sys (AfkSaveSettings (AfkLoadSettings (initial office)))) = Some saved_values"
proof -
  have h1: "reg_key (sys (initial office)) = Some saved_values"
    by (simp add: initial_def office_def)
  have h2: "saved_values ''AfkTimeoutMinutes'' = Some (REG_DWORD 5)"
    by (simp add: saved_values_def)
  have h3: "saved_values ''AfkTargetPlan''
      = Some (REG_BINARY [2, 0, 0, 0, 0, 0, 0, 0, 0, 0, 0, 0, 0, 0, 0, 0])"
    by (simp add: saved_values_def)
  have h4: "length [2, 0, 0, 0, 0, 0, 0, 0, 0, 0, 0, 0, 0, 0, 0, 0 :: 8 word] = 16"
    by simp
  show ?thesis
    using AfkSettings_round_trip [OF h1 h2 h3 h4] h1 h2 h3 by simp
qed

section \<open>Defaulting the target at startup\<close>

lemma AfkLoadSettings_target_cong:
  assumes "reg_key (sys s') = reg_key (sys s)" "reg_denied (sys s') = reg_denied (sys s)"
    "g_afkTargetGuid s' = g_afkTargetGuid s"
  shows "g_afkTargetGuid (AfkLoadSettings s') = g_afkTargetGuid (AfkLoadSettings s)"
  using assms
  by (simp add: AfkLoadSettings_def RegOpenKeyExW_def Let_def split: option.splits)

lemma AfkLoadSettings_sys: "sys (AfkLoadSettings s) = sys s"
  by (simp add: AfkLoadSettings_def Let_def split: option.splits)

text \<open>
  Claim C9. At startup, after the settings are loaded, a target that is still unset is
  replaced by the active plan when that can be read; a target that was loaded is kept.
  So after a startup with a readable active plan the target is the loaded one or the
  active plan, and it is set as soon as the active plan's identifier is not all-zero.
\<close>

theorem startup_defaults_target:
  assumes "\<not> get_active_fails (sys s)"
  shows "g_afkTargetGuid (snd (CreateHiddenWindow True s)) =
           (if g_afkTargetGuid (AfkLoadSettings s) = 0 then active (sys s)
            else g_afkTargetGuid (AfkLoadSettings s))
     \<and> (active (sys s) \<noteq> 0 \<longrightarrow> g_afkTargetGuid (snd (CreateHiddenWindow True s)) \<noteq> 0)"
proof -
  define s2 where "s2 = (UpdateTrayTooltip (AddOrUpdateTrayIcon s))
     \<lparr>g_lastActiveGuid := snd (GetActivePlanGuid
        (g_lastActiveGuid (UpdateTrayTooltip (AddOrUpdateTrayIcon s)))
        (sys (UpdateTrayTooltip (AddOrUpdateTrayIcon s))))\<rparr>"
  have same: "reg_key (sys s2) = reg_key (sys s)" "reg_denied (sys s2) = reg_denied (sys s)"
    "g_afkTargetGuid s2 = g_afkTargetGuid s" "active (sys s2) = active (sys s)"
    "get_active_fails (sys s2) = get_active_fails (sys s)"
    by (simp_all add: s2_def AddOrUpdateTrayIcon_def host_calls_defs)
  have t: "g_afkTargetGuid (AfkLoadSettings s2) = g_afkTargetGuid (AfkLoadSettings s)"
    by (rule AfkLoadSettings_target_cong) (simp_all add: same)
  have "snd (CreateHiddenWindow True s) =
      (if g_afkTargetGuid (AfkLoadSettings s2) = 0 then
         (let (ok, cur) = GetActivePlanGuid 0 (sys (AfkLoadSettings s2))
          in if ok then (AfkLoadSettings s2)\<lparr>g_afkTargetGuid := cur\<rparr> else AfkLoadSettings s2)
       else AfkLoadSettings s2)"
    unfolding CreateHiddenWindow_def s2_def Let_def by simp
  also have "GetActivePlanGuid 0 (sys (AfkLoadSettings s2)) = (True, active (sys s))"
    using assms by (simp add: AfkLoadSettings_sys GetActivePlanGuid_def same)
  finally have "snd (CreateHiddenWindow True s) =
      (if g_afkTargetGuid (AfkLoadSettings s2) = 0
       then (AfkLoadSettings s2)\<lparr>g_afkTargetGuid := active (sys s)\<rparr>
       else AfkLoadSettings s2)"
    by simp
  then show ?thesis by (simp add: t)
qed

theorem startup_defaults_target_witness:
  "\<not> get_active_fails (sys (initial desk))
   \<and> g_afkTargetGuid (AfkLoadSettings (initial desk)) = 0
   \<and> active (sys (initial desk)) = PlanA \<and> PlanA \<noteq> 0
   \<and> g_afkTargetGuid (snd (CreateHiddenWindow True (initial desk))) = PlanA"
proof -
  have h1: "\<not> get_active_fails (sys (initial desk))"
    by (simp add: example_defs)
  have t: "g_afkTargetGuid (AfkLoadSettings (initial desk)) = 0"
    "active (sys (initial desk)) = PlanA" "PlanA \<noteq> 0"
    by (simp_all add: AfkLoadSettings_def RegOpenKeyExW_def example_defs)
  show ?thesis
    using startup_defaults_target [OF h1] h1 by (simp add: t)
qed

end
